theory Spec2Isabelle
  imports Complex_Main
begin

section \<open>Data model of \<^verbatim>\<open>code_example.py\<close>\<close>

text \<open>
  Numbers. The amount and the man-hours of a work are Python floats, the crew size and the
  length of the workday are Python ints. Floats are taken as exact rationals, so rounding,
  infinities and NaN are outside this development. Division keeps the one effect that changes
  control flow: a zero divisor raises \<^verbatim>\<open>ZeroDivisionError\<close>.

  Dates. A \<^verbatim>\<open>datetime\<close> is taken as a rational number of days counted from the proleptic
  Gregorian ordinal 0 (midnight of day \<open>n\<close> is the number \<open>n\<close>), and \<^verbatim>\<open>timedelta(days=d)\<close> is the
  number \<open>d\<close>. The microsecond resolution and the year range of the library are left out.

  Strings. The Cyrillic literals of the source are written in Latin transliteration; only their
  equality is ever observed.
\<close>

type_synonym datetime = rat

type_synonym addr = nat

datatype error = ZeroDivisionError | ValueError

record ConstructionWork =
  name :: string
  unit :: string
  amount :: rat
  man_hours_per_unit :: rat
  dependencies :: "string list"
  start_date :: "datetime option"
  end_date :: "datetime option"

record ProjectAnalyzer =
  workers_count :: int
  workday_hours :: int

text \<open>
  The works are mutable objects that the scheduler changes in place, and a list may hold the same
  object twice. So the objects live in a store, and a list of works is a list of addresses.
\<close>

type_synonym heap = "addr \<Rightarrow> ConstructionWork"

subsection \<open>Calendar dates\<close>

text \<open>
  \<^verbatim>\<open>datetime(year, month, day)\<close> of the standard library, as its \<^verbatim>\<open>_ymd2ord\<close> computes the ordinal
  of a date. A date that does not exist raises \<^verbatim>\<open>ValueError\<close>.
\<close>

definition is_leap :: "int \<Rightarrow> bool" where
  "is_leap year = (year mod 4 = 0 \<and> (year mod 100 \<noteq> 0 \<or> year mod 400 = 0))"

definition days_before_year :: "int \<Rightarrow> int" where
  "days_before_year year = (let y = year - 1 in y * 365 + y div 4 - y div 100 + y div 400)"

definition DAYS_IN_MONTH :: "int list" where
  "DAYS_IN_MONTH = [31, 28, 31, 30, 31, 30, 31, 31, 30, 31, 30, 31]"

definition days_in_month :: "int \<Rightarrow> int \<Rightarrow> int" where
  "days_in_month year month =
     (if month = 2 \<and> is_leap year then 29 else DAYS_IN_MONTH ! nat (month - 1))"

definition days_before_month :: "int \<Rightarrow> int \<Rightarrow> int" where
  "days_before_month year month =
     sum_list (take (nat (month - 1)) DAYS_IN_MONTH) + (if month > 2 \<and> is_leap year then 1 else 0)"

definition ymd2ord :: "int \<Rightarrow> int \<Rightarrow> int \<Rightarrow> int" where
  "ymd2ord year month day = days_before_year year + days_before_month year month + day"

definition datetime_ymd :: "int \<Rightarrow> int \<Rightarrow> int \<Rightarrow> error + datetime" where
  "datetime_ymd year month day =
     (if 1 \<le> year \<and> year \<le> 9999 \<and> 1 \<le> month \<and> month \<le> 12
         \<and> 1 \<le> day \<and> day \<le> days_in_month year month
      then Inr (of_int (ymd2ord year month day))
      else Inl ValueError)"

section \<open>ProjectAnalyzer.calculate\_duration\<close>

definition calculate_duration :: "ProjectAnalyzer \<Rightarrow> ConstructionWork \<Rightarrow> error + rat" where
  "calculate_duration self work =
     (let total_hours = man_hours_per_unit work * amount work
      in if workday_hours self * workers_count self = 0 then Inl ZeroDivisionError
         else Inr (total_hours / of_int (workday_hours self * workers_count self)))"

text \<open>The quotient of the specification, read as plain arithmetic.\<close>

definition duration_days :: "ProjectAnalyzer \<Rightarrow> ConstructionWork \<Rightarrow> rat" where
  "duration_days self work =
     (man_hours_per_unit work * amount work) / (of_int (workday_hours self) * of_int (workers_count self))"

section \<open>ProjectAnalyzer.create\_gantt\_chart\<close>

text \<open>
  The inner loop \<^verbatim>\<open>for dep_work in works\<close>: a work counts when it bears the name looked for and
  its end date is set.
\<close>

fun scan_works :: "heap \<Rightarrow> addr list \<Rightarrow> string \<Rightarrow> datetime \<Rightarrow> datetime" where
  "scan_works h [] dep_name max_end_date = max_end_date"
| "scan_works h (dep_work # rest) dep_name max_end_date =
     scan_works h rest dep_name
       (case end_date (h dep_work) of
          Some e \<Rightarrow> if name (h dep_work) = dep_name then max max_end_date e else max_end_date
        | None \<Rightarrow> max_end_date)"

text \<open>The loop \<^verbatim>\<open>for dep_name in work.dependencies\<close> around it.\<close>

fun scan_deps :: "heap \<Rightarrow> addr list \<Rightarrow> string list \<Rightarrow> datetime \<Rightarrow> datetime" where
  "scan_deps h works [] max_end_date = max_end_date"
| "scan_deps h works (dep_name # rest) max_end_date =
     scan_deps h works rest (scan_works h works dep_name max_end_date)"

text \<open>
  The body of \<^verbatim>\<open>for work in works\<close>. The duration is computed first, so a
  \<^verbatim>\<open>ZeroDivisionError\<close> leaves the store as it was.
\<close>

definition schedule_work ::
  "ProjectAnalyzer \<Rightarrow> addr list \<Rightarrow> datetime \<Rightarrow> addr \<Rightarrow> heap \<Rightarrow> (error + unit) \<times> heap" where
  "schedule_work self works start work h =
     (case calculate_duration self (h work) of
        Inl e \<Rightarrow> (Inl e, h)
      | Inr work_duration \<Rightarrow>
          (let h1 = h(work := (h work)\<lparr>start_date := Some start,
                                      end_date := Some (start + work_duration)\<rparr>)
           in if dependencies (h1 work) \<noteq> [] then
                (let max_end_date = scan_deps h1 works (dependencies (h1 work)) start
                 in (Inr (), h1(work := (h1 work)\<lparr>start_date := Some max_end_date,
                                                 end_date := Some (max_end_date + work_duration)\<rparr>)))
              else (Inr (), h1)))"

fun schedule_loop ::
  "ProjectAnalyzer \<Rightarrow> addr list \<Rightarrow> datetime \<Rightarrow> addr list \<Rightarrow> heap \<Rightarrow> (error + unit) \<times> heap" where
  "schedule_loop self works start [] h = (Inr (), h)"
| "schedule_loop self works start (work # rest) h =
     (case schedule_work self works start work h of
        (Inl e, h') \<Rightarrow> (Inl e, h')
      | (Inr u, h') \<Rightarrow> schedule_loop self works start rest h')"

text \<open>
  The scheduling pass of \<^verbatim>\<open>create_gantt_chart\<close>. The second loop of the method builds the
  returned table from the works and assigns to none of them; it is not part of this
  development, so the result is the outcome of the pass and the store it leaves.
\<close>

definition create_gantt_chart ::
  "ProjectAnalyzer \<Rightarrow> addr list \<Rightarrow> datetime \<Rightarrow> heap \<Rightarrow> (error + unit) \<times> heap" where
  "create_gantt_chart self works start h = schedule_loop self works start works h"

section \<open>ProjectAnalyzer.analyze\_project\_completeness\<close>

definition doc_technical_task :: string where
  "doc_technical_task = ''Tekhnicheskoe zadanie''"

definition doc_estimate :: string where
  "doc_estimate = ''Smeta s trudozatratami''"

definition doc_schedule :: string where
  "doc_schedule = ''Grafik rabot''"

definition doc_visual_plans :: string where
  "doc_visual_plans = ''Vizualnye plany''"

definition rec_technical_task :: string where
  "rec_technical_task = ''Zaprosit TZ u zakazchika ili naiti analogichnyi proekt''"

definition rec_estimate :: string where
  "rec_estimate = ''Ispolzovat srednie trudozatraty po analogichnym rabotam''"

definition rec_schedule :: string where
  "rec_schedule = ''Vosstanovit grafik iz smety cherez raschet trudozatrat''"

text \<open>The dictionary \<^verbatim>\<open>criteria\<close>, in its insertion order.\<close>

definition criteria :: "(string \<times> string \<times> rat) list" where
  "criteria =
     [(''has_technical_task'', doc_technical_task, 1),
      (''has_estimate'', doc_estimate, 2),
      (''has_schedule'', doc_schedule, 1),
      (''has_visual_plans'', doc_visual_plans, 1 / 2)]"

text \<open>\<^verbatim>\<open>files_info.get(criterion, False)\<close>\<close>

definition dict_get :: "(string \<rightharpoonup> bool) \<Rightarrow> string \<Rightarrow> bool \<Rightarrow> bool" where
  "dict_get d k dflt = (case d k of None \<Rightarrow> dflt | Some v \<Rightarrow> v)"

fun criteria_loop ::
  "(string \<rightharpoonup> bool) \<Rightarrow> (string \<times> string \<times> rat) list \<Rightarrow> rat \<times> string list \<Rightarrow> rat \<times> string list" where
  "criteria_loop files_info [] (completeness_score, missing_docs) = (completeness_score, missing_docs)"
| "criteria_loop files_info ((criterion, doc_name, weight) # rest) (completeness_score, missing_docs) =
     criteria_loop files_info rest
       (if dict_get files_info criterion False
        then (completeness_score + weight, missing_docs)
        else (completeness_score, missing_docs @ [doc_name]))"

definition generate_recommendations :: "string list \<Rightarrow> string list" where
  "generate_recommendations missing_docs =
     (let r0 = [];
          r1 = (if doc_technical_task \<in> set missing_docs then r0 @ [rec_technical_task] else r0);
          r2 = (if doc_estimate \<in> set missing_docs then r1 @ [rec_estimate] else r1);
          r3 = (if doc_schedule \<in> set missing_docs then r2 @ [rec_schedule] else r2)
      in r3)"

record completeness =
  completeness_percent :: rat
  missing_documents :: "string list"
  recommendations :: "string list"

definition analyze_project_completeness :: "(string \<rightharpoonup> bool) \<Rightarrow> completeness" where
  "analyze_project_completeness files_info =
     (let max_score = 4;
          (completeness_score, missing_docs) = criteria_loop files_info criteria (0, [])
      in \<lparr>completeness_percent = (completeness_score / max_score) * 100,
          missing_documents = missing_docs,
          recommendations = generate_recommendations missing_docs\<rparr>)"

section \<open>Example inputs\<close>

text \<open>Dictionaries of document flags: every key true, every key false, and the two documents
  of the demonstration whose keys for the schedule and the plans are left out.\<close>

definition all_true :: "string \<rightharpoonup> bool" where
  "all_true = [''has_technical_task'' \<mapsto> True, ''has_estimate'' \<mapsto> True,
               ''has_schedule'' \<mapsto> True, ''has_visual_plans'' \<mapsto> True]"

definition all_false :: "string \<rightharpoonup> bool" where
  "all_false = [''has_technical_task'' \<mapsto> False, ''has_estimate'' \<mapsto> False,
                ''has_schedule'' \<mapsto> False, ''has_visual_plans'' \<mapsto> False]"

definition two_documents :: "string \<rightharpoonup> bool" where
  "two_documents = [''has_technical_task'' \<mapsto> True, ''has_estimate'' \<mapsto> True]"

(*EXAMPLES*)

section \<open>Completeness of the project documents\<close>

lemmas doc_defs = doc_technical_task_def doc_estimate_def doc_schedule_def doc_visual_plans_def
  rec_technical_task_def rec_estimate_def rec_schedule_def

text \<open>The loop over the criteria adds the weights of the documents present and collects the
  labels of the others, in the order of the dictionary.\<close>

lemma criteria_loop_eq:
  "criteria_loop files_info cs (s, m) =
     (s + sum_list (map (\<lambda>(k, d, w). w) (filter (\<lambda>(k, d, w). dict_get files_info k False) cs)),
      m @ map (\<lambda>(k, d, w). d) (filter (\<lambda>(k, d, w). \<not> dict_get files_info k False) cs))"
  by (induction cs arbitrary: s m) (auto simp: algebra_simps)

lemma dict_get_absent:
  "files_info criterion = None \<Longrightarrow>
     dict_get (files_info(criterion \<mapsto> False)) k False = dict_get files_info k False"
  by (simp add: dict_get_def)

text \<open>
  C1. With every key of the catalog true, the scorer returns no missing document and no
  recommendation, and the percentage \<open>112.5\<close>: the weights add up to \<open>4.5\<close> and are divided by
  the constant \<open>max_score = 4\<close>. The percentage is not the \<open>100\<close> of the claim.
\<close>

theorem all_true_percent:
  "analyze_project_completeness all_true =
     \<lparr>completeness_percent = 225 / 2, missing_documents = [], recommendations = []\<rparr>"
  by (simp add: analyze_project_completeness_def criteria_def all_true_def dict_get_def
      generate_recommendations_def)

text \<open>
  C6. When every key of the catalog is false or absent, the percentage is 0, the missing
  documents are the four labels in the order of the catalog, and there are exactly three
  recommendations: the visual plans have none.
\<close>

theorem no_documents:
  assumes "\<forall>k \<in> set (map fst criteria). files_info k = None \<or> files_info k = Some False"
  shows "analyze_project_completeness files_info =
           \<lparr>completeness_percent = 0,
            missing_documents = [doc_technical_task, doc_estimate, doc_schedule, doc_visual_plans],
            recommendations = [rec_technical_task, rec_estimate, rec_schedule]\<rparr>
         \<and> missing_documents (analyze_project_completeness files_info) = map (\<lambda>(k, d, w). d) criteria
         \<and> length (recommendations (analyze_project_completeness files_info)) = 3"
proof -
  have "\<forall>k \<in> set (map fst criteria). \<not> dict_get files_info k False"
    using assms by (auto simp: dict_get_def)
  then show ?thesis
    by (simp add: analyze_project_completeness_def criteria_def generate_recommendations_def doc_defs)
qed

theorem no_documents_witness:
  "analyze_project_completeness Map.empty =
           \<lparr>completeness_percent = 0,
            missing_documents = [doc_technical_task, doc_estimate, doc_schedule, doc_visual_plans],
            recommendations = [rec_technical_task, rec_estimate, rec_schedule]\<rparr>
   \<and> analyze_project_completeness all_false =
           \<lparr>completeness_percent = 0,
            missing_documents = [doc_technical_task, doc_estimate, doc_schedule, doc_visual_plans],
            recommendations = [rec_technical_task, rec_estimate, rec_schedule]\<rparr>"
  using no_documents [of Map.empty] no_documents [of all_false]
  by (simp add: criteria_def all_false_def)

text \<open>
  C9. A key of the catalog that the dictionary does not hold counts as one mapped to false.
  The scorer is a total function, so nothing is raised; its result is the result for the
  dictionary with the key set to false; the label of the criterion is among the missing
  documents; and the percentage is made of the weights of the other criteria only.
\<close>

theorem absent_key_as_false:
  assumes "(criterion, doc_name, weight) \<in> set criteria" and "files_info criterion = None"
  shows "analyze_project_completeness files_info =
           analyze_project_completeness (files_info(criterion \<mapsto> False))
         \<and> doc_name \<in> set (missing_documents (analyze_project_completeness files_info))
         \<and> completeness_percent (analyze_project_completeness files_info) =
             (sum_list (map (\<lambda>(k, d, w). w)
                (filter (\<lambda>(k, d, w). k \<noteq> criterion \<and> dict_get files_info k False) criteria)) / 4) * 100"
proof -
  have absent: "\<not> dict_get files_info criterion False"
    using assms(2) by (simp add: dict_get_def)
  have one: "analyze_project_completeness files_info =
           analyze_project_completeness (files_info(criterion \<mapsto> False))"
    by (simp add: analyze_project_completeness_def criteria_loop_eq
        dict_get_absent [of files_info criterion, OF assms(2)])
  have two: "doc_name \<in> set (missing_documents (analyze_project_completeness files_info))"
    using assms(1) absent
    by (force simp: analyze_project_completeness_def criteria_loop_eq)
  have flt: "filter (\<lambda>(k, d, w). k \<noteq> criterion \<and> dict_get files_info k False) criteria =
             filter (\<lambda>(k, d, w). dict_get files_info k False) criteria"
    using absent by (intro filter_cong) auto
  have three: "completeness_percent (analyze_project_completeness files_info) =
             (sum_list (map (\<lambda>(k, d, w). w)
                (filter (\<lambda>(k, d, w). k \<noteq> criterion \<and> dict_get files_info k False) criteria)) / 4) * 100"
    unfolding flt by (simp add: analyze_project_completeness_def criteria_loop_eq)
  from one two three show ?thesis by simp
qed

theorem absent_key_as_false_witness:
  "(''has_schedule'', doc_schedule, 1) \<in> set criteria \<and> two_documents ''has_schedule'' = None
   \<and> analyze_project_completeness two_documents =
      analyze_project_completeness (two_documents(''has_schedule'' \<mapsto> False))
   \<and> doc_schedule \<in> set (missing_documents (analyze_project_completeness two_documents))
   \<and> completeness_percent (analyze_project_completeness two_documents) =
             (sum_list (map (\<lambda>(k, d, w). w)
                (filter (\<lambda>(k, d, w). k \<noteq> ''has_schedule'' \<and> dict_get two_documents k False) criteria)) / 4) * 100"
proof -
  have a: "(''has_schedule'', doc_schedule, 1) \<in> set criteria"
    by (simp add: criteria_def)
  have b: "two_documents ''has_schedule'' = None"
    by (simp add: two_documents_def)
  from absent_key_as_false [of "''has_schedule''" doc_schedule 1 two_documents, OF a b] a b
  show ?thesis by blast
qed

(*SCHEDULING*)

end
